theory Spec2Isabelle
  imports Main
begin

section \<open>Python primitives used by the three programs\<close>

text \<open>
  Text is a list of 8-bit characters. ASCII is modelled exactly; a character outside ASCII
  is carried through unchanged as its UTF-8 bytes, so \<open>strip\<close> and \<open>lower\<close> act on ASCII only.
  A console session is the list of lines still to be typed (what \<open>input()\<close> will return,
  one line per call) together with the lines the program has printed so far, prompts
  included. \<open>input()\<close> on an exhausted console raises \<open>EOFError\<close>.
\<close>

definition is_space :: "char \<Rightarrow> bool" where
  \<comment> \<open>\<open>str.isspace\<close> on ASCII: TAB, LF, VT, FF, CR, FS, GS, RS, US and the blank\<close>
  "is_space c = (c \<in> set [CHR 0x09, CHR 0x0A, CHR 0x0B, CHR 0x0C, CHR 0x0D,
                            CHR 0x1C, CHR 0x1D, CHR 0x1E, CHR 0x1F, CHR 0x20])"

definition strip :: "string \<Rightarrow> string" where
  \<comment> \<open>\<open>s.strip()\<close>\<close>
  "strip s = rev (dropWhile is_space (rev (dropWhile is_space s)))"

definition lower_char :: "char \<Rightarrow> char" where
  "lower_char c =
     (case map_of (zip ''ABCDEFGHIJKLMNOPQRSTUVWXYZ'' ''abcdefghijklmnopqrstuvwxyz'') c of
        Some d \<Rightarrow> d
      | None \<Rightarrow> c)"

definition lower :: "string \<Rightarrow> string" where
  \<comment> \<open>\<open>s.lower()\<close>\<close>
  "lower s = map lower_char s"

fun starts_with :: "string \<Rightarrow> string \<Rightarrow> bool" where
  "starts_with [] s = True"
| "starts_with (c # t) [] = False"
| "starts_with (c # t) (d # s) = (c = d \<and> starts_with t s)"

fun str_in :: "string \<Rightarrow> string \<Rightarrow> bool" where
  \<comment> \<open>\<open>t in s\<close> for two strings: \<open>t\<close> occurs in \<open>s\<close> as a contiguous run\<close>
  "str_in t [] = (t = [])"
| "str_in t (d # s) = (starts_with t (d # s) \<or> str_in t s)"

definition replace_char :: "char \<Rightarrow> string \<Rightarrow> string" where
  \<comment> \<open>\<open>s.replace(c, '')\<close> for a single character \<open>c\<close>\<close>
  "replace_char c s = filter (\<lambda>x. x \<noteq> c) s"

definition is_digit :: "char \<Rightarrow> bool" where
  "is_digit c = (c \<in> set ''0123456789'')"

definition digit_val :: "char \<Rightarrow> int" where
  "digit_val c = (case map_of (zip ''0123456789'' [0, 1, 2, 3, 4, 5, 6, 7, 8, 9]) c of
                    Some v \<Rightarrow> v
                  | None \<Rightarrow> 0)"

fun digits_val :: "int \<Rightarrow> string \<Rightarrow> int option" where
  \<comment> \<open>decimal digits, a single underscore allowed between two digits\<close>
  "digits_val acc [] = Some acc"
| "digits_val acc [c] = (if is_digit c then Some (10 * acc + digit_val c) else None)"
| "digits_val acc (c # d # s) =
     (if is_digit c then
        (if d = CHR ''_'' then
           (case s of
              [] \<Rightarrow> None
            | e # s' \<Rightarrow> if is_digit e then digits_val (10 * acc + digit_val c) s else None)
         else digits_val (10 * acc + digit_val c) (d # s))
      else None)"

definition py_int :: "string \<Rightarrow> int option" where
  \<comment> \<open>\<open>int(s)\<close> on text: \<open>None\<close> stands for \<open>ValueError\<close>\<close>
  "py_int s =
     (case strip s of
        [] \<Rightarrow> None
      | c # r \<Rightarrow>
          if c = CHR ''-'' then (if r = [] then None else map_option uminus (digits_val 0 r))
          else if c = CHR ''+'' then (if r = [] then None else digits_val 0 r)
          else digits_val 0 (c # r))"

fun nat_digits :: "nat \<Rightarrow> nat \<Rightarrow> string" where
  \<comment> \<open>the decimal digits of \<open>n\<close>; the first argument bounds the number of digits\<close>
  "nat_digits 0 n = []"
| "nat_digits (Suc k) n =
     (if n < 10 then [''0123456789'' ! n]
      else nat_digits k (n div 10) @ [''0123456789'' ! (n mod 10)])"

definition str_nat :: "nat \<Rightarrow> string" where
  "str_nat n = nat_digits (Suc n) n"

definition str_int :: "int \<Rightarrow> string" where
  \<comment> \<open>\<open>str(i)\<close> for an integer\<close>
  "str_int i = (if i < 0 then CHR ''-'' # str_nat (nat (- i)) else str_nat (nat i))"

datatype exn = EOFError | SystemExit int | AttributeError

datatype 'a outcome = Returned 'a "string list" | Raised exn

type_synonym 'a run = "string list \<times> 'a outcome"

definition after :: "string list \<Rightarrow> string list \<times> 'b \<Rightarrow> string list \<times> 'b" where
  \<comment> \<open>the lines printed before a computation, put in front of what it prints\<close>
  "after out r = (out @ fst r, snd r)"

definition bind_run :: "'a run \<Rightarrow> ('a \<Rightarrow> string list \<Rightarrow> 'b run) \<Rightarrow> 'b run" where
  \<comment> \<open>one statement after another: an exception of the first skips the second\<close>
  "bind_run r k =
     (case snd r of
        Raised e \<Rightarrow> (fst r, Raised e)
      | Returned a ins \<Rightarrow> after (fst r) (k a ins))"

definition input_line :: "string \<Rightarrow> string list \<Rightarrow> string run" where
  \<comment> \<open>\<open>input(prompt)\<close>\<close>
  "input_line prompt ins =
     (case ins of
        [] \<Rightarrow> ([prompt], Raised EOFError)
      | l # ins' \<Rightarrow> ([prompt], Returned l ins'))"

definition quoted :: "string \<Rightarrow> string" where
  \<comment> \<open>a value between two apostrophes, as the messages show it\<close>
  "quoted s = [CHR 0x27] @ s @ [CHR 0x27]"

subsection \<open>Regular expressions\<close>

text \<open>
  The two patterns of the contact book are written as terms of \<open>regex\<close> and matched with
  derivatives. \<open>re_match\<close> is \<open>re.match\<close>: the pattern has to match some prefix of the
  text. \<open>re_match_to_end\<close> is \<open>re.match\<close> for a pattern closed by \<open>$\<close>, which stands at
  the end of the text or just before a final newline.
\<close>

datatype regex =
    NoMatch
  | EmptyStr
  | Sym "char \<Rightarrow> bool"
  | Alt regex regex
  | Seq regex regex
  | Star regex

definition Many1 :: "regex \<Rightarrow> regex" where
  \<comment> \<open>\<open>r+\<close>\<close>
  "Many1 r = Seq r (Star r)"

fun nullable :: "regex \<Rightarrow> bool" where
  "nullable NoMatch = False"
| "nullable EmptyStr = True"
| "nullable (Sym p) = False"
| "nullable (Alt r s) = (nullable r \<or> nullable s)"
| "nullable (Seq r s) = (nullable r \<and> nullable s)"
| "nullable (Star r) = True"

fun deriv :: "char \<Rightarrow> regex \<Rightarrow> regex" where
  "deriv c NoMatch = NoMatch"
| "deriv c EmptyStr = NoMatch"
| "deriv c (Sym p) = (if p c then EmptyStr else NoMatch)"
| "deriv c (Alt r s) = Alt (deriv c r) (deriv c s)"
| "deriv c (Seq r s) =
     (if nullable r then Alt (Seq (deriv c r) s) (deriv c s) else Seq (deriv c r) s)"
| "deriv c (Star r) = Seq (deriv c r) (Star r)"

fun full_match :: "regex \<Rightarrow> string \<Rightarrow> bool" where
  "full_match r [] = nullable r"
| "full_match r (c # s) = full_match (deriv c r) s"

fun re_match :: "regex \<Rightarrow> string \<Rightarrow> bool" where
  "re_match r [] = nullable r"
| "re_match r (c # s) = (nullable r \<or> re_match (deriv c r) s)"

definition re_match_to_end :: "regex \<Rightarrow> string \<Rightarrow> bool" where
  "re_match_to_end r s =
     (full_match r s \<or> (s \<noteq> [] \<and> last s = CHR 0x0A \<and> full_match r (butlast s)))"


section \<open>The task list (todo\_app.py)\<close>

record task =
  task_id :: int
  description :: string
  is_done :: bool
  created_on :: string
  due_date :: string

text \<open>
  The backing file of the task list holds one JSON document, the sequence of task
  records; \<open>None\<close> is the absent file. \<open>strptime_ok\<close> says whether
  \<open>datetime.strptime(s, DATE_FORMAT)\<close> accepts \<open>s\<close>, and \<open>today\<close> is
  \<open>datetime.now().strftime(DATE_FORMAT)\<close>: both are the platform's, not the program's.
\<close>

type_synonym todo_file = "task list option"

record calendar =
  strptime_ok :: "string \<Rightarrow> bool"
  today :: string

definition DATE_FORMAT :: string where
  "DATE_FORMAT = ''%Y-%m-%d''"

definition save_tasks :: "task list \<Rightarrow> todo_file" where
  "save_tasks tasks_list = Some tasks_list"

fun get_next_id :: "task list \<Rightarrow> int" where
  "get_next_id [] = 1"
| "get_next_id (t # ts) = fold max (map task_id ts) (task_id t) + 1"

definition add_task ::
  "calendar \<Rightarrow> task list \<Rightarrow> todo_file \<Rightarrow> string list \<Rightarrow> (task list \<times> todo_file) run" where
  "add_task cal tasks_list file ins =
     (case ins of
        [] \<Rightarrow> ([''Enter the new task description: ''], Raised EOFError)
      | l1 # ins1 \<Rightarrow>
          let description = strip l1 in
          if description = [] then
            ([''Enter the new task description: '', ''Task description cannot be empty.''],
             Returned (tasks_list, file) ins1)
          else
            (case ins1 of
               [] \<Rightarrow>
                 ([''Enter the new task description: '',
                   ''Enter due date (optional, format: '' @ DATE_FORMAT @ ''): ''],
                  Raised EOFError)
             | l2 # ins2 \<Rightarrow>
                 let due_date_input = strip l2;
                     accepted = (due_date_input \<noteq> [] \<and> strptime_ok cal due_date_input);
                     rejected = (due_date_input \<noteq> [] \<and> \<not> strptime_ok cal due_date_input);
                     new_task = \<lparr>task_id = get_next_id tasks_list,
                                 description = description,
                                 is_done = False,
                                 created_on = today cal,
                                 due_date = (if accepted then due_date_input else [])\<rparr>;
                     tasks_list' = tasks_list @ [new_task]
                 in ([''Enter the new task description: '',
                      ''Enter due date (optional, format: '' @ DATE_FORMAT @ ''): '']
                     @ (if rejected
                        then [''Invalid date format. Due date not set. Please use ''
                              @ DATE_FORMAT @ ''.'']
                        else [])
                     @ [''Task #'' @ str_int (task_id new_task) @ '' added successfully.''],
                     Returned (tasks_list', save_tasks tasks_list') ins2)))"

definition find_task_by_id :: "task list \<Rightarrow> string \<Rightarrow> task option" where
  "find_task_by_id tasks_list s =
     (case py_int s of
        None \<Rightarrow> None
      | Some k \<Rightarrow> find (\<lambda>t. task_id t = k) tasks_list)"

definition mark_task_done ::
  "task list \<Rightarrow> todo_file \<Rightarrow> string list \<Rightarrow> (task list \<times> todo_file) run" where
  "mark_task_done tasks_list file ins =
     (case ins of
        [] \<Rightarrow> ([''Enter the ID of the task to mark as DONE: ''], Raised EOFError)
      | l # ins1 \<Rightarrow>
          let s = strip l in
          (case find_task_by_id tasks_list s of
             Some t \<Rightarrow>
               let i = length (takeWhile (\<lambda>u. task_id u \<noteq> task_id t) tasks_list);
                   tasks_list' = tasks_list[i := (tasks_list ! i)\<lparr>is_done := True\<rparr>]
               in ([''Enter the ID of the task to mark as DONE: '',
                    ''Task #'' @ str_int (task_id t) @ '' marked as done.''],
                   Returned (tasks_list', save_tasks tasks_list') ins1)
           | None \<Rightarrow>
               ([''Enter the ID of the task to mark as DONE: '',
                 ''Task with ID '' @ [CHR 0x27] @ s @ [CHR 0x27] @ '' not found.''],
                Returned (tasks_list, file) ins1)))"

definition delete_task ::
  "task list \<Rightarrow> todo_file \<Rightarrow> string list \<Rightarrow> (task list \<times> todo_file) run" where
  "delete_task tasks_list file ins =
     (case ins of
        [] \<Rightarrow> ([''Enter the ID of the task to DELETE: ''], Raised EOFError)
      | l # ins1 \<Rightarrow>
          let s = strip l in
          (case find_task_by_id tasks_list s of
             Some t \<Rightarrow>
               let tasks_list' = filter (\<lambda>u. task_id u \<noteq> task_id t) tasks_list
               in ([''Enter the ID of the task to DELETE: '',
                    ''Task #'' @ str_int (task_id t) @ '' successfully deleted.''],
                   Returned (tasks_list', save_tasks tasks_list') ins1)
           | None \<Rightarrow>
               ([''Enter the ID of the task to DELETE: '',
                 ''Task with ID '' @ [CHR 0x27] @ s @ [CHR 0x27] @ '' not found.''],
                Returned (tasks_list, file) ins1)))"


section \<open>The calculator (calc.py)\<close>

text \<open>
  The operands are Python floats. Their arithmetic is the platform's: the model takes it
  as a parameter, a record of the operations the program calls. \<open>py_float\<close> is
  \<open>float(s)\<close>, with \<open>None\<close> for \<open>ValueError\<close>; \<open>eq_zero\<close> is \<open>b == 0\<close>;
  \<open>py_pow\<close> is \<open>a ** b\<close>, which can raise; \<open>py_str\<close> is the text a value has in a
  formatted message.
\<close>

datatype calc_exn = ZeroDivisionError string | OtherException string

record 'v arith =
  py_float :: "string \<Rightarrow> 'v option"
  eq_zero :: "'v \<Rightarrow> bool"
  py_add :: "'v \<Rightarrow> 'v \<Rightarrow> 'v"
  py_sub :: "'v \<Rightarrow> 'v \<Rightarrow> 'v"
  py_mul :: "'v \<Rightarrow> 'v \<Rightarrow> 'v"
  py_truediv :: "'v \<Rightarrow> 'v \<Rightarrow> 'v"
  py_pow :: "'v \<Rightarrow> 'v \<Rightarrow> calc_exn + 'v"
  py_str :: "'v \<Rightarrow> string"

definition add_numbers :: "'v arith \<Rightarrow> 'v \<Rightarrow> 'v \<Rightarrow> calc_exn + 'v" where
  "add_numbers A a b = Inr (py_add A a b)"

definition subtract_numbers :: "'v arith \<Rightarrow> 'v \<Rightarrow> 'v \<Rightarrow> calc_exn + 'v" where
  "subtract_numbers A a b = Inr (py_sub A a b)"

definition multiply_numbers :: "'v arith \<Rightarrow> 'v \<Rightarrow> 'v \<Rightarrow> calc_exn + 'v" where
  "multiply_numbers A a b = Inr (py_mul A a b)"

definition divide_numbers :: "'v arith \<Rightarrow> 'v \<Rightarrow> 'v \<Rightarrow> calc_exn + 'v" where
  "divide_numbers A a b =
     (if eq_zero A b
      then Inl (ZeroDivisionError ''Cannot divide by zero. Please try a different number.'')
      else Inr (py_truediv A a b))"

definition power_numbers :: "'v arith \<Rightarrow> 'v \<Rightarrow> 'v \<Rightarrow> calc_exn + 'v" where
  "power_numbers A a b = py_pow A a b"

definition OPERATION_MAP :: "'v arith \<Rightarrow> string \<rightharpoonup> ('v \<Rightarrow> 'v \<Rightarrow> calc_exn + 'v)" where
  "OPERATION_MAP A =
     [''+'' \<mapsto> add_numbers A,
      ''-'' \<mapsto> subtract_numbers A,
      ''*'' \<mapsto> multiply_numbers A,
      ''/'' \<mapsto> divide_numbers A,
      ''**'' \<mapsto> power_numbers A]"

definition is_escape :: "string \<Rightarrow> bool" where
  \<comment> \<open>\<open>s.lower() in ('exit', 'quit')\<close>\<close>
  "is_escape s = (lower s \<in> set [''exit'', ''quit''])"

definition prompt_a :: string where
  "prompt_a = ''Enter the first number (A): ''"

definition prompt_op :: string where
  "prompt_op = ''Enter the operation symbol (+, -, *, /, **): ''"

definition prompt_b :: string where
  "prompt_b = ''Enter the second number (B): ''"

definition report :: "'v arith \<Rightarrow> 'v \<Rightarrow> string \<Rightarrow> 'v \<Rightarrow> calc_exn + 'v \<Rightarrow> string list" where
  \<comment> \<open>the \<open>try\<close> block around the calculation, with its two handlers\<close>
  "report A number_a operation number_b r =
     (case r of
        Inr result \<Rightarrow>
          [''Result:'',
           ''   '' @ py_str A number_a @ '' '' @ operation @ '' '' @ py_str A number_b
             @ '' = '' @ py_str A result]
      | Inl (ZeroDivisionError e) \<Rightarrow> [''Calculation Error: '' @ e]
      | Inl (OtherException e) \<Rightarrow> [''An unexpected error occurred: '' @ e])"

fun calc_loop :: "'v arith \<Rightarrow> string list \<Rightarrow> string list \<times> exn" where
  \<comment> \<open>the \<open>while True\<close> of \<open>run_calculator\<close>: it ends only by an exception\<close>
  "calc_loop A [] = ([prompt_a], EOFError)"
| "calc_loop A (l1 # ins1) =
     (let input_a = strip l1 in
      if is_escape input_a then ([prompt_a], SystemExit 0)
      else
        (case py_float A input_a of
           None \<Rightarrow>
             after [prompt_a,
                    ''Invalid input for the first number. Please enter a valid numerical value.'']
               (calc_loop A ins1)
         | Some number_a \<Rightarrow>
             (case ins1 of
                [] \<Rightarrow> ([prompt_a, prompt_op], EOFError)
              | l2 # ins2 \<Rightarrow>
                  let operation = strip l2 in
                  if is_escape operation then ([prompt_a, prompt_op], SystemExit 0)
                  else
                    (case OPERATION_MAP A operation of
                       None \<Rightarrow>
                         after [prompt_a, prompt_op,
                                quoted operation
                                  @ '' is not a recognized operation. Please try again.'']
                           (calc_loop A ins2)
                     | Some calculation_function \<Rightarrow>
                         (case ins2 of
                            [] \<Rightarrow> ([prompt_a, prompt_op, prompt_b], EOFError)
                          | l3 # ins3 \<Rightarrow>
                              let input_b = strip l3 in
                              if is_escape input_b
                              then ([prompt_a, prompt_op, prompt_b], SystemExit 0)
                              else
                                (case py_float A input_b of
                                   None \<Rightarrow>
                                     after [prompt_a, prompt_op, prompt_b,
                                            ''Invalid input for the second number. Please enter a valid numerical value.'']
                                       (calc_loop A ins3)
                                 | Some number_b \<Rightarrow>
                                     after ([prompt_a, prompt_op, prompt_b]
                                            @ report A number_a operation number_b
                                                (calculation_function number_a number_b))
                                       (calc_loop A ins3)))))))"

definition run_calculator :: "'v arith \<Rightarrow> string list \<Rightarrow> string list \<times> exn" where
  "run_calculator A ins =
     after [CHR 0x0A # ''=== Advanced Simple Calculator ==='',
            ''Available Operations: +, -, *, /, ** (Power)'',
            ''Type '' @ quoted ''exit'' @ '' or '' @ quoted ''quit'' @ '' at any time to stop.'']
       (calc_loop A ins)"


text \<open>
  For the closed examples the arithmetic is instantiated with the whole numbers, which the
  floats hold exactly up to \<open>2 ^ 53\<close>: \<open>float('5')\<close> is \<open>5.0\<close> and prints as \<open>5.0\<close>.
  Sums, differences, products and powers with a natural exponent are Python's on such
  operands; a quotient or a power that is not whole is not represented (the quotient is
  rounded down, the power reported as an exception), so the examples use neither.
\<close>

definition whole_numbers :: "int arith" where
  "whole_numbers =
     \<lparr>py_float = py_int,
      eq_zero = (\<lambda>b. b = 0),
      py_add = (\<lambda>a b. a + b),
      py_sub = (\<lambda>a b. a - b),
      py_mul = (\<lambda>a b. a * b),
      py_truediv = (\<lambda>a b. a div b),
      py_pow = (\<lambda>a b. if 0 \<le> b then Inr (a ^ nat b)
                      else Inl (OtherException ''not a whole number'')),
      py_str = (\<lambda>a. str_int a @ ''.0'')\<rparr>"


section \<open>The contact book (contact\_book.py)\<close>

text \<open>
  A contact is a dictionary with the keys of \<open>CONTACT_FIELDS\<close>. Every dictionary the
  program holds has all four: \<open>add_contact\<close> sets them, and \<open>csv.DictReader\<close> fills the
  fields a short row lacks with \<open>None\<close>. The name is always text, since the reader skips
  a row with no field. A row longer than the field list puts its surplus under the key
  \<open>None\<close>: that is \<open>extras\<close>. So a record with optional fields holds exactly the
  dictionaries that occur, and equality of records is equality of dictionaries.

  The backing file is its content, the characters in it; \<open>None\<close> is the absent file.
  Opening, reading and writing the file are taken to succeed, so the one exception a load
  can meet is the one the \<open>csv\<close> reader raises.
\<close>

record contact =
  name :: string
  phone :: "string option"
  email :: "string option"
  address :: "string option"
  extras :: "string list option"

type_synonym csv_file = "string option"

definition CONTACT_FIELDS :: "string list" where
  "CONTACT_FIELDS = [''name'', ''phone'', ''email'', ''address'']"

subsection \<open>The csv module\<close>

text \<open>
  The writer and the reader of the \<open>csv\<close> module, as CPython 3.11 has them, for the
  dialect the program uses, the default one: fields separated by a comma, a field quoted
  when it holds a comma, a quote or a character of the line terminator, a quote inside a
  quoted field doubled, lines ended by CR LF, no escape character, not strict, and no field
  of more than 131072 characters read. The file is opened with \<open>newline=''\<close>, so no line
  ending is translated, and a line of the file ends after LF, after CR LF, or after a CR that
  no LF follows.

  A character outside ASCII is several chars here, the bytes of its UTF-8 form; the reader
  counts characters, so \<open>py_len\<close> counts the chars that begin one. Text that has no
  UTF-8 form, a lone surrogate, is not in the model; the program cannot write it to the
  file.
\<close>

definition lineterminator :: string where
  "lineterminator = [CHR 0x0D, CHR 0x0A]"




definition needs_quotes :: "char \<Rightarrow> bool" where
  "needs_quotes c = (c = CHR '','' \<or> c = CHR 0x22 \<or> c \<in> set lineterminator)"

definition join_append :: "string \<Rightarrow> string" where
  \<comment> \<open>a field as the writer puts it\<close>
  "join_append f =
     (if list_ex needs_quotes f
      then [CHR 0x22] @ concat (map (\<lambda>c. if c = CHR 0x22 then [c, c] else [c]) f) @ [CHR 0x22]
      else f)"

fun join_fields :: "string list \<Rightarrow> string" where
  "join_fields [] = []"
| "join_fields [f] = join_append f"
| "join_fields (f # g # fs) = join_append f @ CHR '','' # join_fields (g # fs)"

definition writerow :: "string list \<Rightarrow> string" where
  \<comment> \<open>\<open>writer.writerow\<close>; a row of one empty field is written as a pair of quotes\<close>
  "writerow fs = (if fs = [[]] then [CHR 0x22, CHR 0x22] else join_fields fs) @ lineterminator"















subsection \<open>Loading, saving and the actions of the menu\<close>




definition text_of :: "string option \<Rightarrow> string" where
  \<comment> \<open>what the csv writer puts for a value: nothing for \<open>None\<close>\<close>
  "text_of v = (case v of None \<Rightarrow> [] | Some s \<Rightarrow> s)"

definition dict_to_list :: "contact \<Rightarrow> string list" where
  "dict_to_list c = [name c, text_of (phone c), text_of (email c), text_of (address c)]"

fun write_rows :: "contact list \<Rightarrow> string list list \<times> bool" where
  \<comment> \<open>the rows \<open>DictWriter.writerows\<close> hands to the writer: a dictionary with a key
      outside the field list raises \<open>ValueError\<close>, after the rows before it were written\<close>
  "write_rows [] = ([], True)"
| "write_rows (c # cs) =
     (if extras c \<noteq> None then ([], False)
      else (dict_to_list c # fst (write_rows cs), snd (write_rows cs)))"

definition save_contacts :: "contact list \<Rightarrow> csv_file \<times> string list" where
  \<comment> \<open>the new content of the file, and what is printed\<close>
  "save_contacts contacts_list =
     (Some (writerow CONTACT_FIELDS @ concat (map writerow (fst (write_rows contacts_list)))),
      [if snd (write_rows contacts_list)
       then ''Contacts saved successfully to file.''
       else ''Critical Error: Could not save contacts! dict contains fields not in fieldnames: None''])"

definition email_pattern :: regex where
  \<comment> \<open>\<open>[^@]+@[^@]+\.[^@]+\<close>\<close>
  "email_pattern =
     Seq (Many1 (Sym (\<lambda>c. c \<noteq> CHR ''@'')))
       (Seq (Sym (\<lambda>c. c = CHR ''@''))
         (Seq (Many1 (Sym (\<lambda>c. c \<noteq> CHR ''@'')))
           (Seq (Sym (\<lambda>c. c = CHR ''.''))
             (Many1 (Sym (\<lambda>c. c \<noteq> CHR ''@''))))))"

definition phone_pattern :: regex where
  \<comment> \<open>\<open>^[0-9()\s-]+$\<close>, without its final \<open>$\<close>\<close>
  "phone_pattern =
     Many1 (Sym (\<lambda>c. is_digit c \<or> c = CHR ''('' \<or> c = CHR '')'' \<or> is_space c \<or> c = CHR ''-''))"

fun get_validated_input :: "string \<Rightarrow> string \<Rightarrow> string list \<Rightarrow> string run" where
  "get_validated_input prompt validation_type [] = ([prompt], Raised EOFError)"
| "get_validated_input prompt validation_type (l # ins) =
     (let v = strip l in
      if v = [] then
        after [prompt, ''Input cannot be empty.'']
          (get_validated_input prompt validation_type ins)
      else if validation_type = ''email'' \<and> \<not> re_match email_pattern v then
        after [prompt, ''Invalid email format. Please re-enter.'']
          (get_validated_input prompt validation_type ins)
      else if validation_type \<noteq> ''email'' \<and> validation_type = ''phone''
              \<and> \<not> re_match_to_end phone_pattern v then
        after [prompt, ''Invalid phone format. Use only numbers and common delimiters.'']
          (get_validated_input prompt validation_type ins)
      else ([prompt], Returned v ins))"

definition add_contact ::
  "contact list \<Rightarrow> csv_file \<Rightarrow> string list \<Rightarrow> (contact list \<times> csv_file) run" where
  "add_contact contacts_list file ins =
     after [CHR 0x0A # ''--- Adding New Contact ---'']
       (bind_run (get_validated_input ''Enter Name: '' ''text'' ins) (\<lambda>v_name ins1.
        bind_run (get_validated_input ''Enter Phone Number: '' ''phone'' ins1) (\<lambda>v_phone ins2.
        bind_run (get_validated_input ''Enter Email: '' ''email'' ins2) (\<lambda>v_email ins3.
        bind_run (input_line ''Enter Address (optional): '' ins3) (\<lambda>l ins4.
          let new_contact = \<lparr>name = v_name, phone = Some v_phone, email = Some v_email,
                              address = Some (strip l), extras = None\<rparr>;
              contacts_list' = contacts_list @ [new_contact]
          in (snd (save_contacts contacts_list')
              @ [''Contact '' @ quoted (name new_contact) @ '' added successfully.''],
              Returned (contacts_list', fst (save_contacts contacts_list')) ins4))))))"

definition py_str_opt :: "string option \<Rightarrow> string" where
  \<comment> \<open>a value in a formatted message: \<open>None\<close> prints as its name\<close>
  "py_str_opt v = (case v of None \<Rightarrow> ''None'' | Some s \<Rightarrow> s)"

definition ljust :: "nat \<Rightarrow> string \<Rightarrow> string" where
  \<comment> \<open>the format \<open>:<20\<close>\<close>
  "ljust n s = s @ replicate (n - length s) (CHR '' '')"

definition zfill :: "nat \<Rightarrow> string \<Rightarrow> string" where
  \<comment> \<open>the format \<open>:02d\<close> on a number that is not negative\<close>
  "zfill n s = replicate (n - length s) (CHR ''0'') @ s"

definition view_contact_list :: "contact list \<Rightarrow> string list" where
  "view_contact_list contacts_list =
     (if contacts_list = [] then [CHR 0x0A # ''Your Contact Book is empty!'']
      else
        [CHR 0x0A # ''--- '' @ [CHR 0xF0, CHR 0x9F, CHR 0x91, CHR 0xA5]
           @ '' Saved Contact List ---'']
        @ map (\<lambda>(i, c). ''['' @ zfill 2 (str_nat i) @ ''] Name: '' @ ljust 20 (name c)
                          @ '' | Phone: '' @ py_str_opt (phone c))
            (zip [1 ..< Suc (length contacts_list)] contacts_list)
        @ [''----------------------------------'' @ [CHR 0x0A]])"

definition phone_digits :: "string \<Rightarrow> string" where
  \<comment> \<open>\<open>c['phone'].replace(' ', '').replace('-', '')\<close>\<close>
  "phone_digits p = replace_char (CHR ''-'') (replace_char (CHR '' '') p)"

fun found_contacts :: "string \<Rightarrow> contact list \<Rightarrow> exn + contact list" where
  \<comment> \<open>the list comprehension of \<open>search_contact\<close>; a phone that is \<open>None\<close> has no
      \<open>replace\<close>, and is looked at only when the name does not match\<close>
  "found_contacts term_s [] = Inr []"
| "found_contacts term_s (c # cs) =
     (if str_in term_s (lower (name c)) then
        (case found_contacts term_s cs of Inl e \<Rightarrow> Inl e | Inr fs \<Rightarrow> Inr (c # fs))
      else
        (case phone c of
           None \<Rightarrow> Inl AttributeError
         | Some p \<Rightarrow>
             if str_in term_s (phone_digits p) then
               (case found_contacts term_s cs of Inl e \<Rightarrow> Inl e | Inr fs \<Rightarrow> Inr (c # fs))
             else found_contacts term_s cs))"

definition or_na :: "string option \<Rightarrow> string" where
  \<comment> \<open>\<open>v if v else 'N/A'\<close>\<close>
  "or_na v = (case v of None \<Rightarrow> ''N/A'' | Some s \<Rightarrow> if s = [] then ''N/A'' else s)"

definition contact_details :: "contact \<Rightarrow> string list" where
  "contact_details c =
     [CHR 0x0A # ''Name:    '' @ name c,
      ''Phone:   '' @ py_str_opt (phone c),
      ''Email:   '' @ or_na (email c),
      ''Address: '' @ or_na (address c)]"

definition search_contact :: "contact list \<Rightarrow> string list \<Rightarrow> unit run" where
  "search_contact contacts_list ins =
     (if contacts_list = [] then
        ([''The contact book is empty, nothing to search.''], Returned () ins)
      else
        bind_run (input_line ''Enter Name or Phone Number to search: '' ins) (\<lambda>l ins1.
          let term_s = lower (strip l) in
          (case found_contacts term_s contacts_list of
             Inl e \<Rightarrow> ([], Raised e)
           | Inr fs \<Rightarrow>
               if fs = [] then
                 ([''No contacts found matching '' @ quoted term_s @ ''.''], Returned () ins1)
               else
                 ([CHR 0x0A # ''--- '' @ str_nat (length fs) @ '' Contact(s) Found ---'']
                  @ concat (map contact_details fs)
                  @ [''------------------------------------------'' @ [CHR 0x0A]],
                  Returned () ins1))))"

definition get_field :: "string \<Rightarrow> contact \<Rightarrow> string option" where
  \<comment> \<open>\<open>contact[field]\<close> for a field of \<open>CONTACT_FIELDS\<close>\<close>
  "get_field f c =
     (if f = ''name'' then Some (name c)
      else if f = ''phone'' then phone c
      else if f = ''email'' then email c
      else address c)"

definition set_field :: "string \<Rightarrow> string \<Rightarrow> contact \<Rightarrow> contact" where
  \<comment> \<open>\<open>contact[field] = v\<close> for a field of \<open>CONTACT_FIELDS\<close>\<close>
  "set_field f v c =
     (if f = ''name'' then c\<lparr>name := v\<rparr>
      else if f = ''phone'' then c\<lparr>phone := Some v\<rparr>
      else if f = ''email'' then c\<lparr>email := Some v\<rparr>
      else c\<lparr>address := Some v\<rparr>)"

definition validation_of :: "string \<Rightarrow> string" where
  "validation_of f =
     (if f = ''phone'' then ''phone'' else (if f = ''email'' then ''email'' else ''text''))"

fun update_fields :: "string list \<Rightarrow> contact \<Rightarrow> string list \<Rightarrow> contact run" where
  \<comment> \<open>the \<open>for field in CONTACT_FIELDS\<close> of \<open>update_contact\<close>. The handler around the
      confirmation catches the \<open>EOFError\<close> of an exhausted console and stores the
      unconfirmed text\<close>
  "update_fields [] c ins = ([], Returned c ins)"
| "update_fields (f # fs) c ins =
     bind_run
       (input_line (''Enter new '' @ f @ '' (Current: '' @ quoted (py_str_opt (get_field f c))
                    @ ''). Press Enter to keep: '') ins)
       (\<lambda>l ins1.
          let new_value = strip l in
          if new_value = [] then update_fields fs c ins1
          else
            (case get_validated_input (''Confirm new '' @ f @ '': '') (validation_of f) ins1 of
               (out, Returned validated_new_value ins2) \<Rightarrow>
                 after out (update_fields fs (set_field f validated_new_value c) ins2)
             | (out, Raised e) \<Rightarrow>
                 after out (update_fields fs (set_field f new_value c) [])))"

definition ask_index :: "string \<Rightarrow> contact list \<Rightarrow> string list \<Rightarrow> (string + nat) run" where
  \<comment> \<open>the \<open>try\<close> block shared by \<open>update_contact\<close> and \<open>delete_contact\<close>: the position
      typed, from 0, or the message that ends the action\<close>
  "ask_index prompt contacts_list ins =
     bind_run (input_line prompt ins) (\<lambda>l ins1.
       (case py_int (strip l) of
          None \<Rightarrow> ([], Returned (Inl ''Invalid input. Please enter a number.'') ins1)
        | Some k \<Rightarrow>
            let contact_index = k - 1 in
            if \<not> (0 \<le> contact_index \<and> contact_index < int (length contacts_list))
            then ([], Returned (Inl ''Invalid contact number.'') ins1)
            else ([], Returned (Inr (nat contact_index)) ins1)))"

definition update_contact ::
  "contact list \<Rightarrow> csv_file \<Rightarrow> string list \<Rightarrow> (contact list \<times> csv_file) run" where
  "update_contact contacts_list file ins =
     after (view_contact_list contacts_list)
       (if contacts_list = [] then ([], Returned (contacts_list, file) ins)
        else
          bind_run
            (ask_index ''Enter the number (index) of the contact to update: '' contacts_list ins)
            (\<lambda>a ins1.
               case a of
                 Inl msg \<Rightarrow> ([msg], Returned (contacts_list, file) ins1)
               | Inr contact_index \<Rightarrow>
                   let contact_to_update = contacts_list ! contact_index in
                   after [CHR 0x0A # ''--- Updating Contact: '' @ name contact_to_update @ '' ---'']
                     (bind_run (update_fields CONTACT_FIELDS contact_to_update ins1)
                        (\<lambda>c ins2.
                           let contacts_list' = contacts_list[contact_index := c]
                           in (snd (save_contacts contacts_list')
                               @ [''Contact '' @ quoted (name c) @ '' updated successfully.''],
                               Returned (contacts_list', fst (save_contacts contacts_list'))
                                 ins2)))))"

definition delete_contact ::
  "contact list \<Rightarrow> csv_file \<Rightarrow> string list \<Rightarrow> (contact list \<times> csv_file) run" where
  "delete_contact contacts_list file ins =
     after (view_contact_list contacts_list)
       (if contacts_list = [] then ([], Returned (contacts_list, file) ins)
        else
          bind_run
            (ask_index ''Enter the number (index) of the contact to DELETE: '' contacts_list ins)
            (\<lambda>a ins1.
               case a of
                 Inl msg \<Rightarrow> ([msg], Returned (contacts_list, file) ins1)
               | Inr contact_index \<Rightarrow>
                   let deleted_contact = contacts_list ! contact_index;
                       contacts_list' = take contact_index contacts_list
                                        @ drop (Suc contact_index) contacts_list
                   in (snd (save_contacts contacts_list')
                       @ [''Contact '' @ quoted (name deleted_contact)
                          @ '' successfully deleted.''],
                       Returned (contacts_list', fst (save_contacts contacts_list')) ins1)))"


definition accepted :: "string \<Rightarrow> string \<Rightarrow> bool" where
  \<comment> \<open>the line passes every check \<open>get_validated_input\<close> makes for the validation type\<close>
  "accepted validation_type l =
     (strip l \<noteq> []
      \<and> (validation_type = ''email'' \<longrightarrow> re_match email_pattern (strip l))
      \<and> (validation_type = ''phone'' \<longrightarrow> re_match_to_end phone_pattern (strip l)))"








section \<open>Properties of the task list\<close>

lemma get_next_id_Max:
  "get_next_id ts = (if ts = [] then 1 else Max (set (map task_id ts)) + 1)"
proof (cases ts)
  case Nil
  then show ?thesis by simp
next
  case (Cons t r)
  have "fold max (map task_id r) (task_id t) = Max (set (task_id t # map task_id r))"
    by (simp only: Max.set_eq_fold)
  with Cons show ?thesis by simp
qed

lemma add_task_appends:
  assumes "strip d \<noteq> []"
  shows "snd (add_task cal ts f (d # u # ins)) =
           Returned (ts @ [\<lparr>task_id = get_next_id ts, description = strip d, is_done = False,
                            created_on = today cal,
                            due_date = (if strip u \<noteq> [] \<and> strptime_ok cal (strip u)
                                        then strip u else [])\<rparr>],
                     Some (ts @ [\<lparr>task_id = get_next_id ts, description = strip d,
                                  is_done = False, created_on = today cal,
                                  due_date = (if strip u \<noteq> [] \<and> strptime_ok cal (strip u)
                                              then strip u else [])\<rparr>])) ins"
  using assms by (simp add: add_task_def Let_def save_tasks_def)

lemma filter_absent: "k \<notin> set (map task_id ts) \<Longrightarrow> filter (\<lambda>u. task_id u \<noteq> k) ts = ts"
  by (induction ts) auto

lemma find_id_Some:
  "find (\<lambda>t. task_id t = k) ts = Some t \<Longrightarrow> task_id t = k \<and> t \<in> set ts"
  by (induction ts) (auto split: if_splits)

lemma find_id_None:
  "find (\<lambda>t. task_id t = k) ts = None \<Longrightarrow> k \<notin> set (map task_id ts)"
  by (induction ts) (auto split: if_splits)

lemma delete_task_filter:
  assumes "py_int (strip l) = Some k"
  shows "snd (delete_task ts f (l # ins)) =
           (if k \<in> set (map task_id ts)
            then Returned (filter (\<lambda>u. task_id u \<noteq> k) ts,
                           Some (filter (\<lambda>u. task_id u \<noteq> k) ts)) ins
            else Returned (ts, f) ins)"
proof (cases "find (\<lambda>t. task_id t = k) ts")
  case None
  then have "k \<notin> set (map task_id ts)" by (rule find_id_None)
  with None assms show ?thesis
    by (simp add: delete_task_def find_task_by_id_def Let_def)
next
  case (Some t)
  then have "task_id t = k" "t \<in> set ts" using find_id_Some by blast+
  with Some assms show ?thesis
    by (auto simp add: delete_task_def find_task_by_id_def Let_def save_tasks_def)
qed

lemma py_int_3: "py_int (strip ''3'') = Some 3"
  by (simp add: py_int_def strip_def is_space_def is_digit_def digit_val_def)

lemma strip_text:
  "strip ''Buy milk'' = ''Buy milk''" "strip ''tomorrow'' = ''tomorrow''" "strip [] = []"
  by (simp_all add: strip_def is_space_def)

text \<open>
  Claim C3. \<open>get_next_id\<close> is 1 on the empty collection and one more than the largest id
  otherwise; a task that \<open>add_task\<close> appends carries that id; \<open>delete_task\<close> keeps every
  task with another id as it is, in the same order; and after the task with id 3 is deleted
  from a collection with the ids 1, 2, 3, 4 the next added task gets the id 5.
\<close>

theorem next_id_is_max_plus_one:
  "get_next_id ts = (if ts = [] then 1 else Max (set (map task_id ts)) + 1)
   \<and> (\<forall>cal f d u ins. strip d \<noteq> [] \<longrightarrow>
         (\<exists>t. snd (add_task cal ts f (d # u # ins)) = Returned (ts @ [t], Some (ts @ [t])) ins
              \<and> task_id t = get_next_id ts))
   \<and> (\<forall>f l ins k. py_int (strip l) = Some k \<longrightarrow>
         (\<exists>f'. snd (delete_task ts f (l # ins))
                 = Returned (filter (\<lambda>u. task_id u \<noteq> k) ts, f') ins))
   \<and> (map task_id ts = [1, 2, 3, 4] \<longrightarrow>
         (\<forall>cal f d u ins ins'. strip d \<noteq> [] \<longrightarrow>
            (\<exists>ts' f' t. snd (delete_task ts f (''3'' # ins)) = Returned (ts', f') ins
                 \<and> map task_id ts' = [1, 2, 4]
                 \<and> snd (add_task cal ts' f' (d # u # ins'))
                     = Returned (ts' @ [t], Some (ts' @ [t])) ins'
                 \<and> task_id t = 5)))"
proof (intro conjI allI impI)
  show "get_next_id ts = (if ts = [] then 1 else Max (set (map task_id ts)) + 1)"
    by (rule get_next_id_Max)
next
  fix cal f d u ins
  assume "strip d \<noteq> []"
  then show "\<exists>t. snd (add_task cal ts f (d # u # ins)) = Returned (ts @ [t], Some (ts @ [t])) ins
              \<and> task_id t = get_next_id ts"
    using add_task_appends [of d cal ts f u ins] by simp
next
  fix f l ins k
  assume "py_int (strip l) = Some k"
  then show "\<exists>f'. snd (delete_task ts f (l # ins))
                 = Returned (filter (\<lambda>u. task_id u \<noteq> k) ts, f') ins"
    using delete_task_filter [of l k ts f ins] filter_absent [of k ts] by auto
next
  fix cal f d u ins ins'
  assume ids: "map task_id ts = [1, 2, 3, 4]" and d: "strip d \<noteq> []"
  let ?ts' = "filter (\<lambda>u. task_id u \<noteq> 3) ts"
  have del: "snd (delete_task ts f (''3'' # ins)) = Returned (?ts', Some ?ts') ins"
    using delete_task_filter [OF py_int_3, of ts f ins] ids by simp
  have "map task_id ?ts' = filter (\<lambda>i. i \<noteq> 3) (map task_id ts)"
    by (simp add: filter_map comp_def)
  with ids have ids': "map task_id ?ts' = [1, 2, 4]" by simp
  then have "?ts' \<noteq> []" by auto
  with ids' have "get_next_id ?ts' = 5" by (simp add: get_next_id_Max)
  with del ids' add_task_appends [OF d, of cal ?ts' "Some ?ts'" u ins']
  show "\<exists>ts' f' t. snd (delete_task ts f (''3'' # ins)) = Returned (ts', f') ins
                 \<and> map task_id ts' = [1, 2, 4]
                 \<and> snd (add_task cal ts' f' (d # u # ins'))
                     = Returned (ts' @ [t], Some (ts' @ [t])) ins'
                 \<and> task_id t = 5"
    by simp
qed

theorem next_id_is_max_plus_one_witness:
  "get_next_id (map (\<lambda>i. \<lparr>task_id = i, description = ''job'', is_done = False,
                            created_on = ''2024-01-01'', due_date = []\<rparr>) [1, 2, 3, 4]) = 5
   \<and> (\<exists>ts' f' t.
         snd (delete_task (map (\<lambda>i. \<lparr>task_id = i, description = ''job'', is_done = False,
                            created_on = ''2024-01-01'', due_date = []\<rparr>) [1, 2, 3, 4])
                None [''3'']) = Returned (ts', f') []
         \<and> map task_id ts' = [1, 2, 4]
         \<and> snd (add_task \<lparr>strptime_ok = (\<lambda>s. False), today = ''2024-01-02''\<rparr> ts' f'
                  [''Buy milk'', []]) = Returned (ts' @ [t], Some (ts' @ [t])) []
         \<and> task_id t = 5)"
proof -
  let ?T = "map (\<lambda>i. \<lparr>task_id = i, description = ''job'', is_done = False,
                       created_on = ''2024-01-01'', due_date = []\<rparr>) [1, 2, 3, 4]"
  have ids: "map task_id ?T = [1, 2, 3, 4]" by simp
  have d: "strip ''Buy milk'' \<noteq> []" by (simp add: strip_text)
  note th = next_id_is_max_plus_one [of ?T]
  from th have "get_next_id ?T = (if ?T = [] then 1 else Max (set (map task_id ?T)) + 1)"
    by (rule conjunct1)
  then have one: "get_next_id ?T = 5" by simp
  from th ids d have two: "\<exists>ts' f' t.
         snd (delete_task ?T None [''3'']) = Returned (ts', f') []
         \<and> map task_id ts' = [1, 2, 4]
         \<and> snd (add_task \<lparr>strptime_ok = (\<lambda>s. False), today = ''2024-01-02''\<rparr> ts' f'
                  [''Buy milk'', []]) = Returned (ts' @ [t], Some (ts' @ [t])) []
         \<and> task_id t = 5"
    by blast
  from one two show ?thesis by (rule conjI)
qed

text \<open>
  Claim C9. When several tasks share the id that is typed, \<open>delete_task\<close> removes all of
  them in one operation, and the tasks that remain keep their relative order: the new
  collection is the old one filtered by the id.
\<close>

theorem delete_task_removes_every_duplicate:
  assumes "py_int (strip l) = Some k" and "k \<in> set (map task_id ts)"
  shows "snd (delete_task ts f (l # ins))
           = Returned (filter (\<lambda>u. task_id u \<noteq> k) ts,
                       Some (filter (\<lambda>u. task_id u \<noteq> k) ts)) ins
         \<and> k \<notin> set (map task_id (filter (\<lambda>u. task_id u \<noteq> k) ts))"
  using delete_task_filter [OF assms(1), of ts f ins] assms(2) by auto

theorem delete_task_removes_every_duplicate_witness:
  "snd (delete_task
          [\<lparr>task_id = 1, description = ''a'', is_done = False, created_on = ''d'', due_date = []\<rparr>,
           \<lparr>task_id = 3, description = ''b'', is_done = False, created_on = ''d'', due_date = []\<rparr>,
           \<lparr>task_id = 2, description = ''c'', is_done = True, created_on = ''d'', due_date = []\<rparr>,
           \<lparr>task_id = 3, description = ''e'', is_done = False, created_on = ''d'', due_date = []\<rparr>]
          None [''3''])
   = Returned
       ([\<lparr>task_id = 1, description = ''a'', is_done = False, created_on = ''d'', due_date = []\<rparr>,
         \<lparr>task_id = 2, description = ''c'', is_done = True, created_on = ''d'', due_date = []\<rparr>],
        Some
         [\<lparr>task_id = 1, description = ''a'', is_done = False, created_on = ''d'', due_date = []\<rparr>,
          \<lparr>task_id = 2, description = ''c'', is_done = True, created_on = ''d'', due_date = []\<rparr>])
       []"
  using delete_task_removes_every_duplicate [OF py_int_3,
      of "[\<lparr>task_id = 1, description = ''a'', is_done = False, created_on = ''d'', due_date = []\<rparr>,
           \<lparr>task_id = 3, description = ''b'', is_done = False, created_on = ''d'', due_date = []\<rparr>,
           \<lparr>task_id = 2, description = ''c'', is_done = True, created_on = ''d'', due_date = []\<rparr>,
           \<lparr>task_id = 3, description = ''e'', is_done = False, created_on = ''d'', due_date = []\<rparr>]"
         None "[]"]
  by simp

text \<open>
  Claim C8. A due date that is typed but that \<open>strptime\<close> rejects is reported and
  dropped: the task is still created, with an empty \<open>due_date\<close>, appended and saved.
\<close>

theorem unparsable_due_date_is_dropped:
  assumes "strip d \<noteq> []" and "strip u \<noteq> []" and "\<not> strptime_ok cal (strip u)"
  shows "add_task cal ts f (d # u # ins) =
           ([''Enter the new task description: '',
             ''Enter due date (optional, format: %Y-%m-%d): '',
             ''Invalid date format. Due date not set. Please use %Y-%m-%d.'',
             ''Task #'' @ str_int (get_next_id ts) @ '' added successfully.''],
            Returned (ts @ [\<lparr>task_id = get_next_id ts, description = strip d, is_done = False,
                             created_on = today cal, due_date = []\<rparr>],
                      Some (ts @ [\<lparr>task_id = get_next_id ts, description = strip d,
                                   is_done = False, created_on = today cal, due_date = []\<rparr>]))
              ins)"
  using assms by (simp add: add_task_def Let_def save_tasks_def DATE_FORMAT_def)

lemma str_int_1: "str_int 1 = ''1''"
  by (simp add: str_int_def str_nat_def)

theorem unparsable_due_date_is_dropped_witness:
  "add_task \<lparr>strptime_ok = (\<lambda>s. s = ''2024-05-01''), today = ''2024-01-02''\<rparr> [] None
      [''Buy milk'', ''tomorrow'', ''x'']
   = ([''Enter the new task description: '',
       ''Enter due date (optional, format: %Y-%m-%d): '',
       ''Invalid date format. Due date not set. Please use %Y-%m-%d.'',
       ''Task #1 added successfully.''],
      Returned ([\<lparr>task_id = 1, description = ''Buy milk'', is_done = False,
                  created_on = ''2024-01-02'', due_date = []\<rparr>],
                Some [\<lparr>task_id = 1, description = ''Buy milk'', is_done = False,
                       created_on = ''2024-01-02'', due_date = []\<rparr>])
        [''x''])"
  using unparsable_due_date_is_dropped
    [of "''Buy milk''" "''tomorrow''"
        "\<lparr>strptime_ok = (\<lambda>s. s = ''2024-05-01''), today = ''2024-01-02''\<rparr>" "[]" None "[''x'']"]
  by (simp add: strip_text str_int_1)

section \<open>Properties of the contact book\<close>




subsection \<open>The reader on the lines and on the events\<close>






subsection \<open>Reading a field and a row the writer wrote\<close>























subsection \<open>Saving and loading\<close>










lemma str_in_empty: "str_in [] s"
  by (induction s) simp_all

lemma found_contacts_empty_term: "found_contacts [] cs = Inr cs"
  by (induction cs) (simp_all add: str_in_empty)

lemma lower_Nil: "lower [] = []"
  by (simp add: lower_def)

text \<open>
  Claim C10. On a collection that is not empty, a search term that strips to the empty
  text matches every contact, also one whose phone is \<open>None\<close>: the name is tested
  first and the empty text occurs in every name. The search prints the whole collection
  and no message of a failed search.
\<close>

theorem empty_term_matches_every_contact:
  assumes "cs \<noteq> []" and "strip l = []"
  shows "found_contacts (lower (strip l)) cs = Inr cs
         \<and> search_contact cs (l # ins) =
             ([''Enter Name or Phone Number to search: '',
               CHR 0x0A # ''--- '' @ str_nat (length cs) @ '' Contact(s) Found ---'']
              @ concat (map contact_details cs)
              @ [''------------------------------------------'' @ [CHR 0x0A]],
              Returned () ins)"
  using assms
  by (simp add: search_contact_def bind_run_def input_line_def after_def lower_Nil
      found_contacts_empty_term)

theorem empty_term_matches_every_contact_witness:
  "search_contact
     [\<lparr>name = ''Ann'', phone = Some ''555-1234'', email = Some ''ann@x.org'',
       address = Some [], extras = None\<rparr>,
      \<lparr>name = ''Bob'', phone = None, email = None, address = None, extras = None\<rparr>]
     [''   '', ''next'']
   = ([''Enter Name or Phone Number to search: '',
       CHR 0x0A # ''--- 2 Contact(s) Found ---'',
       CHR 0x0A # ''Name:    Ann'', ''Phone:   555-1234'', ''Email:   ann@x.org'',
       ''Address: N/A'',
       CHR 0x0A # ''Name:    Bob'', ''Phone:   None'', ''Email:   N/A'', ''Address: N/A'',
       ''------------------------------------------'' @ [CHR 0x0A]],
      Returned () [''next''])"
proof -
  have s: "strip ''   '' = []" by (simp add: strip_def is_space_def)
  have n: "[\<lparr>name = ''Ann'', phone = Some ''555-1234'', email = Some ''ann@x.org'',
       address = Some [], extras = None\<rparr>,
      \<lparr>name = ''Bob'', phone = None, email = None, address = None, extras = None\<rparr>] \<noteq> []"
    by simp
  have two: "str_nat (Suc (Suc 0)) = ''2''" by (simp add: str_nat_def)
  from empty_term_matches_every_contact [OF n s, of "[''next'']"]
  have "search_contact
     [\<lparr>name = ''Ann'', phone = Some ''555-1234'', email = Some ''ann@x.org'',
       address = Some [], extras = None\<rparr>,
      \<lparr>name = ''Bob'', phone = None, email = None, address = None, extras = None\<rparr>]
     [''   '', ''next'']
    = ([''Enter Name or Phone Number to search: '',
               CHR 0x0A # ''--- '' @ str_nat (length
     [\<lparr>name = ''Ann'', phone = Some ''555-1234'', email = Some ''ann@x.org'',
       address = Some [], extras = None\<rparr>,
      \<lparr>name = ''Bob'', phone = None, email = None, address = None, extras = None\<rparr>]) @ '' Contact(s) Found ---'']
              @ concat (map contact_details
     [\<lparr>name = ''Ann'', phone = Some ''555-1234'', email = Some ''ann@x.org'',
       address = Some [], extras = None\<rparr>,
      \<lparr>name = ''Bob'', phone = None, email = None, address = None, extras = None\<rparr>])
              @ [''------------------------------------------'' @ [CHR 0x0A]],
              Returned () [''next''])"
    by (rule conjunct2)
  then show ?thesis
    by (simp add: two contact_details_def py_str_opt_def or_na_def)
qed

text \<open>
  Claim C2. The search removes blanks and dashes from the stored phone, not the
  parentheses that \<open>phone_pattern\<close> admits. The stored phone \<open>(555) 123-4567\<close> is
  compared as \<open>(555)1234567\<close>, in which \<open>5551234567\<close> does not occur, so the search
  finds no contact; without the parentheses the same contact is found.
\<close>

theorem search_misses_phone_in_parentheses:
  "phone_digits ''(555) 123-4567'' = ''(555)1234567''
   \<and> found_contacts ''5551234567''
        [\<lparr>name = ''Alice'', phone = Some ''(555) 123-4567'', email = Some ''alice@x.org'',
          address = Some [], extras = None\<rparr>] = Inr []
   \<and> search_contact
        [\<lparr>name = ''Alice'', phone = Some ''(555) 123-4567'', email = Some ''alice@x.org'',
          address = Some [], extras = None\<rparr>] [''5551234567'']
      = ([''Enter Name or Phone Number to search: '',
          ''No contacts found matching '' @ quoted ''5551234567'' @ ''.''],
         Returned () [])
   \<and> found_contacts ''5551234567''
        [\<lparr>name = ''Alice'', phone = Some ''555 123-4567'', email = Some ''alice@x.org'',
          address = Some [], extras = None\<rparr>]
      = Inr [\<lparr>name = ''Alice'', phone = Some ''555 123-4567'', email = Some ''alice@x.org'',
          address = Some [], extras = None\<rparr>]"
proof -
  have pd: "phone_digits ''(555) 123-4567'' = ''(555)1234567''"
    by (simp add: phone_digits_def replace_char_def)
  have pd2: "phone_digits ''555 123-4567'' = ''5551234567''"
    by (simp add: phone_digits_def replace_char_def)
  have lo: "lower ''Alice'' = ''alice''" by (simp add: lower_def lower_char_def)
  have lt: "lower (strip ''5551234567'') = ''5551234567''"
    by (simp add: lower_def lower_char_def strip_def is_space_def)
  have fc: "found_contacts ''5551234567''
        [\<lparr>name = ''Alice'', phone = Some ''(555) 123-4567'', email = Some ''alice@x.org'',
          address = Some [], extras = None\<rparr>] = Inr []"
    by (simp add: pd lo)
  have fc2: "found_contacts ''5551234567''
        [\<lparr>name = ''Alice'', phone = Some ''555 123-4567'', email = Some ''alice@x.org'',
          address = Some [], extras = None\<rparr>]
      = Inr [\<lparr>name = ''Alice'', phone = Some ''555 123-4567'', email = Some ''alice@x.org'',
          address = Some [], extras = None\<rparr>]"
    by (simp add: pd2 lo)
  have sc: "search_contact
        [\<lparr>name = ''Alice'', phone = Some ''(555) 123-4567'', email = Some ''alice@x.org'',
          address = Some [], extras = None\<rparr>] [''5551234567'']
      = ([''Enter Name or Phone Number to search: '',
          ''No contacts found matching '' @ quoted ''5551234567'' @ ''.''],
         Returned () [])"
    by (simp add: search_contact_def bind_run_def input_line_def after_def Let_def lt pd lo)
  from pd fc sc fc2 show ?thesis by (intro conjI)
qed

lemma ask_index_out_of_range:
  assumes "py_int (strip l) = Some k" and "k < 1 \<or> int (length cs) < k"
  shows "ask_index p cs (l # ins) = ([p], Returned (Inl ''Invalid contact number.'') ins)"
  using assms
  by (auto simp add: ask_index_def bind_run_def input_line_def after_def Let_def)

text \<open>
  Claim C6. When the number typed for \<open>update_contact\<close> or \<open>delete_contact\<close> lies
  outside 1 .. length of the list, the action prints the listing, the prompt and
  \<open>Invalid contact number.\<close>, and returns with the collection and the file as they were:
  nothing is saved and nothing is raised.
\<close>

theorem out_of_range_index_changes_nothing:
  assumes "py_int (strip l) = Some k" and "k < 1 \<or> int (length cs) < k" and "cs \<noteq> []"
  shows "update_contact cs f (l # ins) =
           (view_contact_list cs
            @ [''Enter the number (index) of the contact to update: '',
               ''Invalid contact number.''],
            Returned (cs, f) ins)
         \<and> delete_contact cs f (l # ins) =
           (view_contact_list cs
            @ [''Enter the number (index) of the contact to DELETE: '',
               ''Invalid contact number.''],
            Returned (cs, f) ins)"
  using assms(3)
  by (simp add: update_contact_def delete_contact_def bind_run_def after_def
      ask_index_out_of_range [OF assms(1) assms(2)])

lemma py_int_99: "py_int (strip ''99'') = Some 99"
  by (simp add: py_int_def strip_def is_space_def is_digit_def digit_val_def)

lemma view_three:
  "view_contact_list
     [\<lparr>name = ''Ann'', phone = Some ''555-1234'', email = Some ''ann@x.org'',
       address = Some [], extras = None\<rparr>,
      \<lparr>name = ''Bob'', phone = Some ''555-9999'', email = Some ''bob@x.org'',
       address = Some [], extras = None\<rparr>,
      \<lparr>name = ''Cy'', phone = Some ''(555) 000'', email = Some ''cy@x.org'',
       address = Some [], extras = None\<rparr>]
   = [CHR 0x0A # ''--- '' @ [CHR 0xF0, CHR 0x9F, CHR 0x91, CHR 0xA5] @ '' Saved Contact List ---'',
      ''[01] Name: Ann                  | Phone: 555-1234'',
      ''[02] Name: Bob                  | Phone: 555-9999'',
      ''[03] Name: Cy                   | Phone: (555) 000'',
      ''----------------------------------'' @ [CHR 0x0A]]"
  by code_simp


theorem out_of_range_index_changes_nothing_witness:
  "update_contact
     [\<lparr>name = ''Ann'', phone = Some ''555-1234'', email = Some ''ann@x.org'',
       address = Some [], extras = None\<rparr>,
      \<lparr>name = ''Bob'', phone = Some ''555-9999'', email = Some ''bob@x.org'',
       address = Some [], extras = None\<rparr>,
      \<lparr>name = ''Cy'', phone = Some ''(555) 000'', email = Some ''cy@x.org'',
       address = Some [], extras = None\<rparr>]
     None [''99'', ''1'']
   = ([CHR 0x0A # ''--- '' @ [CHR 0xF0, CHR 0x9F, CHR 0x91, CHR 0xA5] @ '' Saved Contact List ---'',
      ''[01] Name: Ann                  | Phone: 555-1234'',
      ''[02] Name: Bob                  | Phone: 555-9999'',
      ''[03] Name: Cy                   | Phone: (555) 000'',
      ''----------------------------------'' @ [CHR 0x0A],
      ''Enter the number (index) of the contact to update: '',
      ''Invalid contact number.''],
      Returned ([\<lparr>name = ''Ann'', phone = Some ''555-1234'', email = Some ''ann@x.org'',
       address = Some [], extras = None\<rparr>,
      \<lparr>name = ''Bob'', phone = Some ''555-9999'', email = Some ''bob@x.org'',
       address = Some [], extras = None\<rparr>,
      \<lparr>name = ''Cy'', phone = Some ''(555) 000'', email = Some ''cy@x.org'',
       address = Some [], extras = None\<rparr>], None) [''1''])
   \<and> delete_contact
     [\<lparr>name = ''Ann'', phone = Some ''555-1234'', email = Some ''ann@x.org'',
       address = Some [], extras = None\<rparr>,
      \<lparr>name = ''Bob'', phone = Some ''555-9999'', email = Some ''bob@x.org'',
       address = Some [], extras = None\<rparr>,
      \<lparr>name = ''Cy'', phone = Some ''(555) 000'', email = Some ''cy@x.org'',
       address = Some [], extras = None\<rparr>]
     None [''99'', ''1'']
   = ([CHR 0x0A # ''--- '' @ [CHR 0xF0, CHR 0x9F, CHR 0x91, CHR 0xA5] @ '' Saved Contact List ---'',
      ''[01] Name: Ann                  | Phone: 555-1234'',
      ''[02] Name: Bob                  | Phone: 555-9999'',
      ''[03] Name: Cy                   | Phone: (555) 000'',
      ''----------------------------------'' @ [CHR 0x0A],
      ''Enter the number (index) of the contact to DELETE: '',
      ''Invalid contact number.''],
      Returned ([\<lparr>name = ''Ann'', phone = Some ''555-1234'', email = Some ''ann@x.org'',
       address = Some [], extras = None\<rparr>,
      \<lparr>name = ''Bob'', phone = Some ''555-9999'', email = Some ''bob@x.org'',
       address = Some [], extras = None\<rparr>,
      \<lparr>name = ''Cy'', phone = Some ''(555) 000'', email = Some ''cy@x.org'',
       address = Some [], extras = None\<rparr>], None) [''1''])"
proof -
  have r: "(99::int) < 1 \<or> int (length [\<lparr>name = ''Ann'', phone = Some ''555-1234'', email = Some ''ann@x.org'',
       address = Some [], extras = None\<rparr>,
      \<lparr>name = ''Bob'', phone = Some ''555-9999'', email = Some ''bob@x.org'',
       address = Some [], extras = None\<rparr>,
      \<lparr>name = ''Cy'', phone = Some ''(555) 000'', email = Some ''cy@x.org'',
       address = Some [], extras = None\<rparr>]) < 99"
    by simp
  have n: "[\<lparr>name = ''Ann'', phone = Some ''555-1234'', email = Some ''ann@x.org'',
       address = Some [], extras = None\<rparr>,
      \<lparr>name = ''Bob'', phone = Some ''555-9999'', email = Some ''bob@x.org'',
       address = Some [], extras = None\<rparr>,
      \<lparr>name = ''Cy'', phone = Some ''(555) 000'', email = Some ''cy@x.org'',
       address = Some [], extras = None\<rparr>] \<noteq> []"
    by simp
  from out_of_range_index_changes_nothing [OF py_int_99 r n, of None "[''1'']"]
  show ?thesis
    by (simp only: view_three append.simps)
qed

section \<open>Properties of the calculator\<close>

lemma calc_loop_starts_with_prompt: "\<exists>out. fst (calc_loop A ins) = prompt_a # out"
  by (cases ins) (auto simp: after_def Let_def split: option.splits list.splits)

lemma not_escape_slash: "\<not> is_escape ''/''"
  by (simp add: is_escape_def lower_def lower_char_def)

lemma OPERATION_MAP_slash: "OPERATION_MAP A ''/'' = Some (divide_numbers A)"
  by (simp add: OPERATION_MAP_def)

text \<open>
  Claim C4. Division by an operand that equals zero raises the \<open>ZeroDivisionError\<close> of
  \<open>divide_numbers\<close>. In a session the handler at the calculation prints it behind the
  label \<open>Calculation Error:\<close> and the loop goes on: what follows is the loop on the rest
  of the input, which begins with the prompt for the first number.
\<close>

theorem division_by_zero_is_reported_and_loop_continues:
  assumes "py_float A (strip la) = Some a" and "py_float A (strip lb) = Some b"
    and "eq_zero A b"
    and "\<not> is_escape (strip la)" and "\<not> is_escape (strip lb)" and "strip lop = ''/''"
  shows "divide_numbers A a b
           = Inl (ZeroDivisionError ''Cannot divide by zero. Please try a different number.'')
         \<and> calc_loop A (la # lop # lb # rest)
           = after [prompt_a, prompt_op, prompt_b,
                    ''Calculation Error: Cannot divide by zero. Please try a different number.'']
               (calc_loop A rest)
         \<and> (\<exists>out. fst (calc_loop A rest) = prompt_a # out)"
proof (intro conjI)
  show d: "divide_numbers A a b
           = Inl (ZeroDivisionError ''Cannot divide by zero. Please try a different number.'')"
    using assms(3) by (simp add: divide_numbers_def)
  show "calc_loop A (la # lop # lb # rest)
           = after [prompt_a, prompt_op, prompt_b,
                    ''Calculation Error: Cannot divide by zero. Please try a different number.'']
               (calc_loop A rest)"
    using assms d by (simp add: not_escape_slash OPERATION_MAP_slash report_def)
  show "\<exists>out. fst (calc_loop A rest) = prompt_a # out"
    by (rule calc_loop_starts_with_prompt)
qed


lemma whole_numbers_simps:
  "py_float whole_numbers = py_int"
  "eq_zero whole_numbers b = (b = 0)"
  "py_add whole_numbers a b = a + b"
  "py_str whole_numbers a = str_int a @ ''.0''"
  by (simp_all add: whole_numbers_def)

lemma py_int_small:
  "py_int (strip ''5'') = Some 5" "py_int (strip ''0'') = Some 0"
  "py_int (strip ''7'') = Some 7" "py_int (strip ''1'') = Some 1"
  "py_int (strip ''%'') = None"
  by (simp_all add: py_int_def strip_def is_space_def is_digit_def digit_val_def)

lemma strip_small:
  "strip ''5'' = ''5''" "strip ''0'' = ''0''" "strip ''7'' = ''7''" "strip ''1'' = ''1''"
  "strip ''/'' = ''/''" "strip ''%'' = ''%''" "strip ''+'' = ''+''"
  by (simp_all add: strip_def is_space_def)

lemma not_escape_small:
  "\<not> is_escape ''5''" "\<not> is_escape ''0''" "\<not> is_escape ''7''" "\<not> is_escape ''1''"
  "\<not> is_escape ''%''" "\<not> is_escape ''+''"
  by (simp_all add: is_escape_def lower_def lower_char_def)

theorem division_by_zero_is_reported_and_loop_continues_witness:
  "divide_numbers whole_numbers 5 0
     = Inl (ZeroDivisionError ''Cannot divide by zero. Please try a different number.'')
   \<and> calc_loop whole_numbers [''5'', ''/'', ''0'']
     = ([prompt_a, prompt_op, prompt_b,
         ''Calculation Error: Cannot divide by zero. Please try a different number.'',
         prompt_a], EOFError)"
proof -
  have h1: "py_float whole_numbers (strip ''5'') = Some 5"
    and h2: "py_float whole_numbers (strip ''0'') = Some 0"
    by (simp_all add: whole_numbers_simps py_int_small)
  have h3: "eq_zero whole_numbers 0" by (simp add: whole_numbers_simps)
  have h4: "\<not> is_escape (strip ''5'')" and h5: "\<not> is_escape (strip ''0'')"
    by (simp_all add: strip_small not_escape_small)
  have h6: "strip ''/'' = ''/''" by (simp add: strip_small)
  from division_by_zero_is_reported_and_loop_continues [OF h1 h2 h3 h4 h5 h6, of "[]"]
  show ?thesis by (simp add: after_def)
qed

section \<open>Prompts after a rejected entry\<close>

lemma gvi_accept:
  "accepted vt l \<Longrightarrow> get_validated_input p vt (l # ins) = ([p], Returned (strip l) ins)"
  by (auto simp: accepted_def Let_def)

lemma gvi_reject:
  "\<not> accepted vt l \<Longrightarrow>
   \<exists>m. get_validated_input p vt (l # ins) = after [p, m] (get_validated_input p vt ins)"
  by (auto simp: accepted_def Let_def)

lemma gvi_retries:
  assumes "\<forall>l\<in>set bad. \<not> accepted vt l" and "accepted vt good"
  shows "\<exists>msgs. length msgs = length bad
           \<and> get_validated_input p vt (bad @ good # ins)
             = (concat (map (\<lambda>m. [p, m]) msgs) @ [p], Returned (strip good) ins)"
  using assms(1)
proof (induction bad)
  case Nil
  show ?case using gvi_accept [OF assms(2), of p ins] by simp
next
  case (Cons l bad)
  then obtain msgs where m: "length msgs = length bad"
    and g: "get_validated_input p vt (bad @ good # ins)
             = (concat (map (\<lambda>m. [p, m]) msgs) @ [p], Returned (strip good) ins)"
    by auto
  from Cons.prems have "\<not> accepted vt l" by simp
  from gvi_reject [OF this, of p "bad @ good # ins"] obtain m0 where
    "get_validated_input p vt (l # bad @ good # ins)
       = after [p, m0] (get_validated_input p vt (bad @ good # ins))"
    by auto
  with g have "get_validated_input p vt ((l # bad) @ good # ins)
       = (concat (map (\<lambda>m. [p, m]) (m0 # msgs)) @ [p], Returned (strip good) ins)"
    by (simp add: after_def)
  moreover from m have "length (m0 # msgs) = length (l # bad)" by simp
  ultimately show ?case by blast
qed

lemma gvi_retries_snd:
  assumes "\<forall>l\<in>set bad. \<not> accepted vt l" and "accepted vt good"
  shows "snd (get_validated_input p vt (bad @ good # ins)) = Returned (strip good) ins"
  using gvi_retries [OF assms, of p ins] by auto

lemma snd_bind_run: "snd r = Returned a ins \<Longrightarrow> snd (bind_run r k) = snd (k a ins)"
  by (simp add: bind_run_def after_def)

lemma snd_after: "snd (after out r) = snd r"
  by (simp add: after_def)

lemma add_contact_keeps_fields:
  assumes "\<forall>l\<in>set bn. \<not> accepted ''text'' l" and "accepted ''text'' ln"
    and "\<forall>l\<in>set bp. \<not> accepted ''phone'' l" and "accepted ''phone'' lp"
    and "\<forall>l\<in>set be. \<not> accepted ''email'' l" and "accepted ''email'' le"
  shows "snd (add_contact cs f (bn @ ln # bp @ lp # be @ le # la # ins))
         = Returned (cs @ [\<lparr>name = strip ln, phone = Some (strip lp), email = Some (strip le),
                             address = Some (strip la), extras = None\<rparr>],
                     fst (save_contacts
                            (cs @ [\<lparr>name = strip ln, phone = Some (strip lp),
                                    email = Some (strip le), address = Some (strip la),
                                    extras = None\<rparr>]))) ins"
proof -
  have 1: "snd (get_validated_input ''Enter Name: '' ''text''
                  (bn @ ln # bp @ lp # be @ le # la # ins))
           = Returned (strip ln) (bp @ lp # be @ le # la # ins)"
    by (rule gvi_retries_snd [OF assms(1,2)])
  have 2: "snd (get_validated_input ''Enter Phone Number: '' ''phone''
                  (bp @ lp # be @ le # la # ins))
           = Returned (strip lp) (be @ le # la # ins)"
    by (rule gvi_retries_snd [OF assms(3,4)])
  have 3: "snd (get_validated_input ''Enter Email: '' ''email'' (be @ le # la # ins))
           = Returned (strip le) (la # ins)"
    by (rule gvi_retries_snd [OF assms(5,6)])
  have 4: "snd (input_line ''Enter Address (optional): '' (la # ins)) = Returned la ins"
    by (simp add: input_line_def)
  show ?thesis
    unfolding add_contact_def snd_after
    by (simp add: snd_bind_run [OF 1] snd_bind_run [OF 2] snd_bind_run [OF 3]
        snd_bind_run [OF 4] Let_def)
qed

lemma calc_first_rejected:
  assumes "\<not> is_escape (strip l)" and "py_float A (strip l) = None"
  shows "calc_loop A (l # ins)
         = after [prompt_a,
                  ''Invalid input for the first number. Please enter a valid numerical value.'']
             (calc_loop A ins)"
  using assms by simp

lemma calc_operator_rejected:
  assumes "\<not> is_escape (strip la)" and "py_float A (strip la) = Some a"
    and "\<not> is_escape (strip lop)" and "OPERATION_MAP A (strip lop) = None"
  shows "calc_loop A (la # lop # ins)
         = after [prompt_a, prompt_op,
                  quoted (strip lop) @ '' is not a recognized operation. Please try again.'']
             (calc_loop A ins)"
  using assms by simp

lemma calc_second_rejected:
  assumes "\<not> is_escape (strip la)" and "py_float A (strip la) = Some a"
    and "\<not> is_escape (strip lop)" and "OPERATION_MAP A (strip lop) = Some fn"
    and "\<not> is_escape (strip lb)" and "py_float A (strip lb) = None"
  shows "calc_loop A (la # lop # lb # ins)
         = after [prompt_a, prompt_op, prompt_b,
                  ''Invalid input for the second number. Please enter a valid numerical value.'']
             (calc_loop A ins)"
  using assms by simp

lemma add_task_empty_description:
  assumes "strip d = []"
  shows "add_task cal ts f (d # ins)
         = ([''Enter the new task description: '', ''Task description cannot be empty.''],
            Returned (ts, f) ins)"
  using assms by (simp add: add_task_def)


text \<open>
  Claim C5, as the code has it. \<open>get_validated_input\<close> asks for the same field again
  after every rejected line, however many there are, and \<open>add_contact\<close> keeps the
  fields already accepted. The calculator asks for the first number again when it is
  rejected; a rejected operator or second number sends the round back to the prompt for
  the first number, and the loop on the rest of the input no longer knows the values
  accepted before. In the task list an empty description ends \<open>add_task\<close> with no task
  and no second prompt, and the due date is asked once, the task being added whatever it is.
\<close>

theorem rejected_input_prompts:
  "((\<forall>l\<in>set bad. \<not> accepted vt l) \<and> accepted vt good \<longrightarrow>
      (\<exists>msgs. length msgs = length bad
         \<and> get_validated_input p vt (bad @ good # ins)
           = (concat (map (\<lambda>m. [p, m]) msgs) @ [p], Returned (strip good) ins)))
   \<and> ((\<forall>l\<in>set bn. \<not> accepted ''text'' l) \<and> accepted ''text'' ln
       \<and> (\<forall>l\<in>set bp. \<not> accepted ''phone'' l) \<and> accepted ''phone'' lp
       \<and> (\<forall>l\<in>set be. \<not> accepted ''email'' l) \<and> accepted ''email'' le \<longrightarrow>
      snd (add_contact cs f (bn @ ln # bp @ lp # be @ le # la # ins))
        = Returned (cs @ [\<lparr>name = strip ln, phone = Some (strip lp), email = Some (strip le),
                            address = Some (strip la), extras = None\<rparr>],
                    fst (save_contacts
                           (cs @ [\<lparr>name = strip ln, phone = Some (strip lp),
                                   email = Some (strip le), address = Some (strip la),
                                   extras = None\<rparr>]))) ins)
   \<and> (\<not> is_escape (strip l1) \<and> py_float A (strip l1) = None \<longrightarrow>
      calc_loop A (l1 # ins)
        = after [prompt_a,
                 ''Invalid input for the first number. Please enter a valid numerical value.'']
            (calc_loop A ins))
   \<and> (\<not> is_escape (strip l1) \<and> py_float A (strip l1) = Some a
       \<and> \<not> is_escape (strip l2) \<and> OPERATION_MAP A (strip l2) = None \<longrightarrow>
      calc_loop A (l1 # l2 # ins)
        = after [prompt_a, prompt_op,
                 quoted (strip l2) @ '' is not a recognized operation. Please try again.'']
            (calc_loop A ins))
   \<and> (\<not> is_escape (strip l1) \<and> py_float A (strip l1) = Some a
       \<and> \<not> is_escape (strip l2) \<and> OPERATION_MAP A (strip l2) = Some fn
       \<and> \<not> is_escape (strip l3) \<and> py_float A (strip l3) = None \<longrightarrow>
      calc_loop A (l1 # l2 # l3 # ins)
        = after [prompt_a, prompt_op, prompt_b,
                 ''Invalid input for the second number. Please enter a valid numerical value.'']
            (calc_loop A ins))
   \<and> (strip d = [] \<longrightarrow>
      add_task cal ts tf (d # ins)
        = ([''Enter the new task description: '', ''Task description cannot be empty.''],
           Returned (ts, tf) ins))
   \<and> (strip d \<noteq> [] \<longrightarrow>
      (\<exists>t. snd (add_task cal ts tf (d # u # ins)) = Returned (ts @ [t], Some (ts @ [t])) ins))"
proof (intro conjI impI)
  assume "(\<forall>l\<in>set bad. \<not> accepted vt l) \<and> accepted vt good"
  then show "\<exists>msgs. length msgs = length bad
         \<and> get_validated_input p vt (bad @ good # ins)
           = (concat (map (\<lambda>m. [p, m]) msgs) @ [p], Returned (strip good) ins)"
    using gvi_retries [of bad vt good p ins] by blast
next
  assume "(\<forall>l\<in>set bn. \<not> accepted ''text'' l) \<and> accepted ''text'' ln
       \<and> (\<forall>l\<in>set bp. \<not> accepted ''phone'' l) \<and> accepted ''phone'' lp
       \<and> (\<forall>l\<in>set be. \<not> accepted ''email'' l) \<and> accepted ''email'' le"
  then show "snd (add_contact cs f (bn @ ln # bp @ lp # be @ le # la # ins))
        = Returned (cs @ [\<lparr>name = strip ln, phone = Some (strip lp), email = Some (strip le),
                            address = Some (strip la), extras = None\<rparr>],
                    fst (save_contacts
                           (cs @ [\<lparr>name = strip ln, phone = Some (strip lp),
                                   email = Some (strip le), address = Some (strip la),
                                   extras = None\<rparr>]))) ins"
    using add_contact_keeps_fields [of bn ln bp lp be le cs f la ins] by blast
next
  assume "\<not> is_escape (strip l1) \<and> py_float A (strip l1) = None"
  then show "calc_loop A (l1 # ins)
        = after [prompt_a,
                 ''Invalid input for the first number. Please enter a valid numerical value.'']
            (calc_loop A ins)"
    using calc_first_rejected [of l1 A ins] by blast
next
  assume "\<not> is_escape (strip l1) \<and> py_float A (strip l1) = Some a
       \<and> \<not> is_escape (strip l2) \<and> OPERATION_MAP A (strip l2) = None"
  then show "calc_loop A (l1 # l2 # ins)
        = after [prompt_a, prompt_op,
                 quoted (strip l2) @ '' is not a recognized operation. Please try again.'']
            (calc_loop A ins)"
    using calc_operator_rejected [of l1 A a l2 ins] by blast
next
  assume "\<not> is_escape (strip l1) \<and> py_float A (strip l1) = Some a
       \<and> \<not> is_escape (strip l2) \<and> OPERATION_MAP A (strip l2) = Some fn
       \<and> \<not> is_escape (strip l3) \<and> py_float A (strip l3) = None"
  then show "calc_loop A (l1 # l2 # l3 # ins)
        = after [prompt_a, prompt_op, prompt_b,
                 ''Invalid input for the second number. Please enter a valid numerical value.'']
            (calc_loop A ins)"
    using calc_second_rejected [of l1 A a l2 fn l3 ins] by blast
next
  assume "strip d = []"
  then show "add_task cal ts tf (d # ins)
        = ([''Enter the new task description: '', ''Task description cannot be empty.''],
           Returned (ts, tf) ins)"
    by (rule add_task_empty_description)
next
  assume "strip d \<noteq> []"
  then show "\<exists>t. snd (add_task cal ts tf (d # u # ins))
                 = Returned (ts @ [t], Some (ts @ [t])) ins"
    using add_task_appends [of d cal ts tf u ins] by simp
qed

text \<open>
  Claim C5 as it was stated fails in the calculator and in the task list: after the
  operator \<open>%\<close> is rejected the next prompt is the one for the first number, and the
  result that follows is computed from the operands typed afterwards, not from the 5; and
  an empty task description returns to the caller with the next line unread.
\<close>

theorem rejected_input_restarts_the_round:
  "calc_loop whole_numbers [''5'', ''%'', ''7'', ''+'', ''1'']
     = ([prompt_a, prompt_op,
         quoted ''%'' @ '' is not a recognized operation. Please try again.'',
         prompt_a, prompt_op, prompt_b,
         ''Result:'', ''   7.0 + 1.0 = 8.0'',
         prompt_a], EOFError)
   \<and> prompt_a \<noteq> prompt_op
   \<and> add_task \<lparr>strptime_ok = (\<lambda>s. False), today = ''2024-01-02''\<rparr> [] None
        [''  '', ''Buy milk'']
     = ([''Enter the new task description: '', ''Task description cannot be empty.''],
        Returned ([], None) [''Buy milk''])"
  by code_simp


lemma strip_entries:
  "strip ''555-1234'' = ''555-1234''" "strip ''Ann'' = ''Ann''"
  "strip ''ann@x.org'' = ''ann@x.org''" "strip ''  '' = []" "strip ''abc'' = ''abc''"
  "strip ''Buy milk'' = ''Buy milk''"
  by (simp_all add: strip_def is_space_def)

theorem rejected_input_prompts_witness:
  "(\<exists>msgs. length msgs = 2
      \<and> get_validated_input ''Enter Phone Number: '' ''phone''
          [''  '', ''abc'', ''555-1234'', ''x'']
        = (concat (map (\<lambda>m. [''Enter Phone Number: '', m]) msgs) @ [''Enter Phone Number: ''],
           Returned ''555-1234'' [''x'']))
   \<and> snd (add_contact [] None [''Ann'', ''abc'', ''555-1234'', ''ann'', ''ann@x.org'', ''  '', ''x''])
     = Returned ([\<lparr>name = ''Ann'', phone = Some ''555-1234'', email = Some ''ann@x.org'',
                    address = Some [], extras = None\<rparr>],
                 Some (''name,phone,email,address'' @ lineterminator
                       @ ''Ann,555-1234,ann@x.org,'' @ lineterminator)) [''x'']
   \<and> calc_loop whole_numbers [''abc'', ''x'']
     = after [prompt_a,
              ''Invalid input for the first number. Please enter a valid numerical value.'']
         (calc_loop whole_numbers [''x''])
   \<and> calc_loop whole_numbers [''5'', ''%'', ''x'']
     = after [prompt_a, prompt_op,
              quoted ''%'' @ '' is not a recognized operation. Please try again.'']
         (calc_loop whole_numbers [''x''])
   \<and> calc_loop whole_numbers [''5'', ''+'', ''abc'', ''x'']
     = after [prompt_a, prompt_op, prompt_b,
              ''Invalid input for the second number. Please enter a valid numerical value.'']
         (calc_loop whole_numbers [''x''])
   \<and> add_task \<lparr>strptime_ok = (\<lambda>s. False), today = ''2024-01-02''\<rparr> [] None [''  '', ''x'']
     = ([''Enter the new task description: '', ''Task description cannot be empty.''],
        Returned ([], None) [''x''])
   \<and> (\<exists>t. snd (add_task \<lparr>strptime_ok = (\<lambda>s. False), today = ''2024-01-02''\<rparr> [] None
                 [''Buy milk'', ''abc'', ''x''])
          = Returned ([t], Some [t]) [''x''])"
proof -
  have h1: "(\<forall>l\<in>set [''  '', ''abc'']. \<not> accepted ''phone'' l) \<and> accepted ''phone'' ''555-1234''"
    by code_simp
  have h2: "(\<forall>l\<in>set []. \<not> accepted ''text'' l) \<and> accepted ''text'' ''Ann''
       \<and> (\<forall>l\<in>set [''abc'']. \<not> accepted ''phone'' l) \<and> accepted ''phone'' ''555-1234''
       \<and> (\<forall>l\<in>set [''ann'']. \<not> accepted ''email'' l) \<and> accepted ''email'' ''ann@x.org''"
    by code_simp
  have h3: "\<not> is_escape (strip ''abc'') \<and> py_float whole_numbers (strip ''abc'') = None"
    by code_simp
  have h4: "\<not> is_escape (strip ''5'') \<and> py_float whole_numbers (strip ''5'') = Some 5
       \<and> \<not> is_escape (strip ''%'') \<and> OPERATION_MAP whole_numbers (strip ''%'') = None"
    by code_simp
  have h5: "\<not> is_escape (strip ''5'') \<and> py_float whole_numbers (strip ''5'') = Some 5
       \<and> \<not> is_escape (strip ''+'')
       \<and> OPERATION_MAP whole_numbers (strip ''+'') = Some (add_numbers whole_numbers)
       \<and> \<not> is_escape (strip ''abc'') \<and> py_float whole_numbers (strip ''abc'') = None"
    by (simp add: strip_small strip_entries not_escape_small whole_numbers_simps py_int_small
        OPERATION_MAP_def is_escape_def lower_def lower_char_def py_int_def is_digit_def
        digit_val_def)
  have h6: "strip ''  '' = []" by (simp add: strip_entries)
  have h7: "strip ''Buy milk'' \<noteq> []" by (simp add: strip_entries)
  have sv: "fst (save_contacts [\<lparr>name = ''Ann'', phone = Some ''555-1234'',
                  email = Some ''ann@x.org'', address = Some [], extras = None\<rparr>])
            = Some (''name,phone,email,address'' @ lineterminator
                    @ ''Ann,555-1234,ann@x.org,'' @ lineterminator)"
    by code_simp
  note th = rejected_input_prompts
    [where bad = "[''  '', ''abc'']" and vt = "''phone''" and good = "''555-1234''"
       and p = "''Enter Phone Number: ''" and ins = "[''x'']"
       and bn = "[]" and ln = "''Ann''" and bp = "[''abc'']" and lp = "''555-1234''"
       and be = "[''ann'']" and le = "''ann@x.org''" and la = "''  ''"
       and cs = "[]" and f = None and A = whole_numbers]
  from th [THEN conjunct1, THEN mp, OF h1] have c1: "\<exists>msgs. length msgs = 2
      \<and> get_validated_input ''Enter Phone Number: '' ''phone''
          [''  '', ''abc'', ''555-1234'', ''x'']
        = (concat (map (\<lambda>m. [''Enter Phone Number: '', m]) msgs) @ [''Enter Phone Number: ''],
           Returned ''555-1234'' [''x''])"
    by (simp add: strip_entries numeral_2_eq_2 del: get_validated_input.simps calc_loop.simps)
  from th [THEN conjunct2, THEN conjunct1, THEN mp, OF h2] have c2:
    "snd (add_contact [] None [''Ann'', ''abc'', ''555-1234'', ''ann'', ''ann@x.org'', ''  '', ''x''])
     = Returned ([\<lparr>name = ''Ann'', phone = Some ''555-1234'', email = Some ''ann@x.org'',
                    address = Some [], extras = None\<rparr>],
                 Some (''name,phone,email,address'' @ lineterminator
                       @ ''Ann,555-1234,ann@x.org,'' @ lineterminator)) [''x'']"
    by (simp add: strip_entries sv del: get_validated_input.simps calc_loop.simps)
  from th [where ?l1.0 = "''abc''", THEN conjunct2, THEN conjunct2, THEN conjunct1, THEN mp,
      OF h3]
  have c3: "calc_loop whole_numbers [''abc'', ''x'']
     = after [prompt_a,
              ''Invalid input for the first number. Please enter a valid numerical value.'']
         (calc_loop whole_numbers [''x''])"
    by (simp del: get_validated_input.simps calc_loop.simps)
  from th [where ?l1.0 = "''5''" and ?l2.0 = "''%''" and a = 5,
      THEN conjunct2, THEN conjunct2, THEN conjunct2, THEN conjunct1, THEN mp, OF h4]
  have c4: "calc_loop whole_numbers [''5'', ''%'', ''x'']
     = after [prompt_a, prompt_op,
              quoted ''%'' @ '' is not a recognized operation. Please try again.'']
         (calc_loop whole_numbers [''x''])"
    by (simp add: strip_small del: get_validated_input.simps calc_loop.simps)
  from th [where ?l1.0 = "''5''" and ?l2.0 = "''+''" and a = 5 and ?l3.0 = "''abc''"
             and fn = "add_numbers whole_numbers",
      THEN conjunct2, THEN conjunct2, THEN conjunct2, THEN conjunct2, THEN conjunct1, THEN mp,
      OF h5]
  have c5: "calc_loop whole_numbers [''5'', ''+'', ''abc'', ''x'']
     = after [prompt_a, prompt_op, prompt_b,
              ''Invalid input for the second number. Please enter a valid numerical value.'']
         (calc_loop whole_numbers [''x''])"
    by (simp del: get_validated_input.simps calc_loop.simps)
  from th [where d = "''  ''" and ts = "[]" and tf = None
             and cal = "\<lparr>strptime_ok = (\<lambda>s. False), today = ''2024-01-02''\<rparr>",
      THEN conjunct2, THEN conjunct2, THEN conjunct2, THEN conjunct2, THEN conjunct2,
      THEN conjunct1, THEN mp, OF h6]
  have c6: "add_task \<lparr>strptime_ok = (\<lambda>s. False), today = ''2024-01-02''\<rparr> [] None [''  '', ''x'']
     = ([''Enter the new task description: '', ''Task description cannot be empty.''],
        Returned ([], None) [''x''])"
    by (simp del: get_validated_input.simps calc_loop.simps)
  from th [where d = "''Buy milk''" and ts = "[]" and tf = None and u = "''abc''"
             and cal = "\<lparr>strptime_ok = (\<lambda>s. False), today = ''2024-01-02''\<rparr>",
      THEN conjunct2, THEN conjunct2, THEN conjunct2, THEN conjunct2, THEN conjunct2,
      THEN conjunct2, THEN mp, OF h7]
  have c7: "\<exists>t. snd (add_task \<lparr>strptime_ok = (\<lambda>s. False), today = ''2024-01-02''\<rparr> [] None
                 [''Buy milk'', ''abc'', ''x''])
          = Returned ([t], Some [t]) [''x'']"
    by (simp del: get_validated_input.simps calc_loop.simps)
  from c1 c2 c3 c4 c5 c6 c7 show ?thesis by (intro conjI)
qed

end
